theory Spec2Isabelle
  imports Main
begin

section \<open>The Header component (Composer/packages/client/src/components/Header.tsx)\<close>

subsection \<open>Values and dispatcher calls\<close>

text \<open>
  The options handed to the language dropdown are the objects built by
  \<open>languageListOptions\<close>: \<open>{ key: locale, title: locale, text: language }\<close>, all three
  strings. The handler reads the key \<open>as string\<close>. The fields \<open>locale\<close> and \<open>text\<close> carry
  a prime because the plain words are reserved.
\<close>

record dropdown_option =
  key :: string
  title :: string
  text' :: string

text \<open>
  An entry of the list \<open>languageListTemplates\<close> returns (declared in \<open>./MultiLanguage\<close>).
  The component reads three of its fields; the record is extensible, so whatever else an
  entry carries is left alone. \<open>isEnabled\<close> is tested through \<open>!!isEnabled\<close>, so it may
  be absent: \<open>None\<close> is \<open>undefined\<close>.
\<close>

record language_item =
  language :: string
  locale' :: string
  isEnabled :: "bool option"

text \<open>The calls the component makes on the dispatcher (\<open>dispatcherState\<close>), in order.\<close>

datatype dispatcher_call =
    SetLocale string string
  | SetAppUpdateShowing bool
  | SetWebChatPanelVisibility bool
  | SetShowGetStartedTeachingBubble bool

text \<open>JavaScript truthiness of the values the component tests.\<close>

fun truthy_bool :: "bool option \<Rightarrow> bool" where
  "truthy_bool None = False"
| "truthy_bool (Some b) = b"

fun truthy_string :: "string option \<Rightarrow> bool" where
  "truthy_string None = False"
| "truthy_string (Some s) = (s \<noteq> [])"

subsection \<open>showUpdateAvailableIcon, languageListOptions, onLanguageChange\<close>

text \<open>
  \<open>const showUpdateAvailableIcon = status === AppUpdaterStatus.UPDATE_AVAILABLE && !showing\<close>.
  The enumeration \<open>AppUpdaterStatus\<close> is declared in \<open>../constants\<close>; its member is a
  parameter here.
\<close>

definition showUpdateAvailableIcon :: "'status \<Rightarrow> 'status \<Rightarrow> bool \<Rightarrow> bool" where
  "showUpdateAvailableIcon UPDATE_AVAILABLE status showing =
     (status = UPDATE_AVAILABLE \<and> \<not> showing)"

text \<open>
  The factory handed to \<open>useMemo\<close>:
  \<^verbatim>\<open>
    const languageList = languageListTemplates(languages, locale, defaultLanguage);
    const enableLanguages = languageList.filter(({ isEnabled }) => !!isEnabled);
    return enableLanguages.map((item) => {
      const { language, locale } = item;
      return { key: locale, title: locale, text: language };
    });
  \<close>
  \<open>languageListTemplates\<close> is imported from \<open>./MultiLanguage\<close> and is a parameter.
\<close>

definition languageListOptionsFactory ::
  "(string list \<Rightarrow> string \<Rightarrow> string \<Rightarrow> 'a language_item_scheme list) \<Rightarrow>
   string list \<Rightarrow> string \<Rightarrow> string \<Rightarrow> dropdown_option list" where
  "languageListOptionsFactory languageListTemplates languages locale defaultLanguage =
     (let languageList = languageListTemplates languages locale defaultLanguage;
          enableLanguages = filter (\<lambda>item. truthy_bool (isEnabled item)) languageList
      in map (\<lambda>item. \<lparr> key = locale' item, title = locale' item, text' = language item \<rparr>)
           enableLanguages)"

text \<open>
  The dependency list of the hook is \<open>[languages]\<close>. \<open>languages\<close> is an array, and React
  compares a dependency with the one of the render before by \<open>Object.is\<close>, which for two
  arrays asks whether they are the same object, not whether they hold the same elements.
  An array is therefore its identity together with its elements.
\<close>

record array_ref =
  address :: nat
  elements :: "string list"

definition objectIs :: "array_ref \<Rightarrow> array_ref \<Rightarrow> bool" where
  "objectIs a b = (address a = address b)"

text \<open>
  React's \<open>useMemo(factory, [dep])\<close> with the hook's cell made explicit. The cell is empty
  on the first render; afterwards it holds the dependency and the value of the render that
  last ran the factory. The factory runs when the cell is empty or the dependency is not
  the one in the cell, and the cell then takes the new pair; otherwise the held value is
  returned and the cell stays.
\<close>

type_synonym 'v memo = "(array_ref \<times> 'v) option"

definition useMemo :: "(unit \<Rightarrow> 'v) \<Rightarrow> array_ref \<Rightarrow> 'v memo \<Rightarrow> 'v \<times> 'v memo" where
  "useMemo factory dep cell =
     (case cell of
        None \<Rightarrow> (let nextValue = factory () in (nextValue, Some (dep, nextValue)))
      | Some (prevDep, prevValue) \<Rightarrow>
          if objectIs dep prevDep then (prevValue, cell)
          else (let nextValue = factory () in (nextValue, Some (dep, nextValue))))"

text \<open>
  \<open>const languageListOptions = useMemo(() => { ... }, [languages])\<close>: the value the
  component holds in a render, and the hook's cell after that render. The factory reads
  \<open>locale\<close> and \<open>defaultLanguage\<close> as well, which the dependency list does not name.
\<close>

definition languageListOptionsHook ::
  "(string list \<Rightarrow> string \<Rightarrow> string \<Rightarrow> 'a language_item_scheme list) \<Rightarrow>
   array_ref \<Rightarrow> string \<Rightarrow> string \<Rightarrow> dropdown_option list memo \<Rightarrow>
   dropdown_option list \<times> dropdown_option list memo" where
  "languageListOptionsHook languageListTemplates languages locale defaultLanguage cell =
     useMemo
       (\<lambda>_. languageListOptionsFactory languageListTemplates (elements languages) locale
              defaultLanguage)
       languages cell"

definition languageListOptions ::
  "(string list \<Rightarrow> string \<Rightarrow> string \<Rightarrow> 'a language_item_scheme list) \<Rightarrow>
   array_ref \<Rightarrow> string \<Rightarrow> string \<Rightarrow> dropdown_option list memo \<Rightarrow> dropdown_option list" where
  "languageListOptions languageListTemplates languages locale defaultLanguage cell =
     fst (languageListOptionsHook languageListTemplates languages locale defaultLanguage cell)"


text \<open>
  \<^verbatim>\<open>
    const onLanguageChange = (_event, option?: IDropdownOption, _index?: number) => {
      const selectedLang = option?.key as string;
      if (selectedLang && selectedLang !== locale) {
        setLocale(selectedLang, projectId);
      }
    };
  \<close>
  The handler's only effect is the dispatcher call; the model returns the calls it makes.
\<close>

definition onLanguageChange ::
  "string \<Rightarrow> string \<Rightarrow> dropdown_option option \<Rightarrow> dispatcher_call list" where
  "onLanguageChange locale projectId opt =
     (let selectedLang = map_option key opt
      in if truthy_string selectedLang \<and> selectedLang \<noteq> Some locale
         then (case selectedLang of
                 Some l \<Rightarrow> [SetLocale l projectId]
               | None \<Rightarrow> [])
         else [])"

text \<open>
  Running a list of dispatcher calls on an application state, for any implementation
  \<open>run\<close> of the dispatcher.
\<close>

definition dispatch_all :: "(dispatcher_call \<Rightarrow> 'st \<Rightarrow> 'st) \<Rightarrow> dispatcher_call list \<Rightarrow> 'st \<Rightarrow> 'st" where
  "dispatch_all run calls st = fold run calls st"

subsection \<open>The rendered tree\<close>

text \<open>
  A JSX element with its tag, the string-valued props that identify it, and its children;
  the \<open>Dropdown\<close> carries its \<open>options\<close> prop as well.
  Styles and callbacks are not part of the tree's shape and are left out, and so are the
  two message texts of the teaching bubble, which are not ASCII. A child written
  \<open>{c && <X/>}\<close> is present exactly when \<open>c\<close> is truthy.
\<close>

datatype jsx =
    Element string "(string \<times> string) list" "jsx list"
  | Dropdown "(string \<times> string) list" "dropdown_option list"
  | JsxText string

record 'status header_values =
  projectName :: "string option"
  currentLocale :: string
  rootBotProjectId :: string
  status :: 'status
  showing :: bool
  isShow :: bool
  botUrl :: "string option"
  hideBotController :: bool
  showGetStarted :: bool
  showStartBotTeachingBubble :: bool
  showGetStartedTeachingBubble :: bool
  botProjectSolutionLoaded :: bool
  requiresLUIS :: bool
  requiresQNA :: bool
  teachingBubbleVisibility :: "bool option"
  languages :: array_ref
  defaultLanguage :: string
  languageListMemo :: "dropdown_option list memo"

fun shown_if :: "bool \<Rightarrow> jsx \<Rightarrow> jsx list" where
  "shown_if c x = (if c then [x] else [])"

fun flag :: "bool \<Rightarrow> string" where
  "flag b = (if b then ''true'' else ''false'')"

text \<open>The children of \<open><div css={headerTextContainer}>\<close>.\<close>

definition headerTextContainer ::
  "(string \<Rightarrow> string) \<Rightarrow> dropdown_option list \<Rightarrow> 'status header_values \<Rightarrow> jsx" where
  "headerTextContainer languageFullName options v =
     Element ''div'' []
       (case projectName v of
          None \<Rightarrow> []
        | Some name \<Rightarrow>
            shown_if (name \<noteq> [])
              (Element ''Fragment'' []
                 (Element ''TooltipHost'' [(''content'', name)] [JsxText name]
                  # shown_if (length options > 1)
                      (Element ''span'' [(''id'', ''targetButton''), (''role'', ''button'')]
                         [JsxText (languageFullName (currentLocale v))]))))"

text \<open>The children of \<open><div css={rightSection}>\<close>, in the order of the source.\<close>

definition rightSection ::
  "(string \<Rightarrow> string) \<Rightarrow> 'status \<Rightarrow> 'status header_values \<Rightarrow> jsx" where
  "rightSection formatMessage UPDATE_AVAILABLE v =
     (let testLabel = formatMessage ''Test your bot'';
          rocketLabel = formatMessage ''Recommended actions'';
          updateLabel = formatMessage ''Update available''
      in Element ''div'' []
          (shown_if (isShow v)
             (Element ''div'' []
                [Element ''BotController'' [(''isControllerHidden'', flag (hideBotController v))] []])
           @ shown_if (isShow v)
             (Element ''TooltipHost'' [(''content'', testLabel)]
                [Element ''IconButton''
                   [(''ariaDescription'', testLabel),
                    (''disabled'', flag (\<not> truthy_string (botUrl v))),
                    (''iconName'', ''OfficeChat'')] []])
           @ [Element ''NotificationButton'' [] []]
           @ shown_if (isShow v)
             (Element ''TooltipHost'' [(''content'', rocketLabel)]
                [Element ''IconButton''
                   [(''ariaLabel'', rocketLabel), (''iconName'', ''Rocket''), (''id'', ''rocketButton'')] []])
           @ shown_if (isShow v \<and> showStartBotTeachingBubble v)
             (Element ''TeachingBubble'' [(''target'', ''#startBotPanelElement'')] [])
           @ shown_if (showUpdateAvailableIcon UPDATE_AVAILABLE (status v) (showing v))
             (Element ''TooltipHost'' [(''content'', updateLabel)]
                [Element ''IconButton'' [(''iconName'', ''History''), (''title'', updateLabel)] []])
           @ [Element ''AuthCard'' [] []]))"

text \<open>The language callout, shown while \<open>teachingBubbleVisibility\<close> is truthy.\<close>

definition languageCallout ::
  "(string \<Rightarrow> string) \<Rightarrow> dropdown_option list \<Rightarrow> 'status header_values \<Rightarrow> jsx" where
  "languageCallout formatMessage options v =
     Element ''Callout'' [(''target'', ''#targetButton'')]
       [Element ''div'' [] [JsxText '' '', JsxText (formatMessage ''Active language'')],
        Element ''div'' []
          [JsxText (formatMessage
             ''This is the bot language you are currently authoring. Change the active language in the dropdown below.'')],
        Element ''FocusTrapZone'' []
          [Dropdown
             [(''placeholder'', ''Select an option''), (''selectedKey'', currentLocale v)]
             options]]"

text \<open>
  What \<open>Header\<close> returns. The list the dropdown and the locale button read is the
  component's \<open>languageListOptions\<close> of this render.
\<close>

definition Header ::
  "(string \<Rightarrow> string) \<Rightarrow> (string \<Rightarrow> string) \<Rightarrow>
   (string list \<Rightarrow> string \<Rightarrow> string \<Rightarrow> 'a language_item_scheme list) \<Rightarrow>
   'status \<Rightarrow> 'status header_values \<Rightarrow> jsx" where
  "Header formatMessage languageFullName languageListTemplates UPDATE_AVAILABLE v =
     (let logoLabel = formatMessage ''Composer Logo'';
          options = languageListOptions languageListTemplates (languages v) (currentLocale v)
                      (defaultLanguage v) (languageListMemo v)
      in Element ''div'' [(''role'', ''banner'')]
          ([Element ''img'' [(''alt'', logoLabel), (''aria-label'', logoLabel)] [],
            headerTextContainer languageFullName options v,
            rightSection formatMessage UPDATE_AVAILABLE v]
           @ shown_if (truthy_bool (teachingBubbleVisibility v))
               (languageCallout formatMessage options v)
           @ [Element ''GetStarted''
                [(''isOpen'', flag (botProjectSolutionLoaded v \<and> showGetStarted v)),
                 (''projectId'', rootBotProjectId v),
                 (''requiresLUIS'', flag (requiresLUIS v)),
                 (''requiresQNA'', flag (requiresQNA v)),
                 (''showTeachingBubble'',
                    flag (botProjectSolutionLoaded v \<and> showGetStartedTeachingBubble v))] []]))"

text \<open>
  Whether the tree holds an \<open>IconButton\<close> with the given icon. The update-available
  button is the one with \<open>iconProps={{ iconName: 'History' }}\<close>.
\<close>

fun has_icon_button :: "string \<Rightarrow> jsx \<Rightarrow> bool" where
  "has_icon_button icon (Element tag props kids) =
     ((tag = ''IconButton'' \<and> map_of props ''iconName'' = Some icon)
      \<or> list_ex (has_icon_button icon) kids)"
| "has_icon_button icon (Dropdown props opts) = False"
| "has_icon_button icon (JsxText t) = False"


subsection \<open>A language list that reads the locale\<close>

text \<open>
  \<open>languageListTemplates\<close> is not among the files. This one, for the example below,
  lists three languages and enables a language when the bot has it or it is the current
  locale.
\<close>

definition example_templates :: "string list \<Rightarrow> string \<Rightarrow> string \<Rightarrow> language_item list" where
  "example_templates langs loc dl =
     [\<lparr>language = ''English'', locale' = ''en-us'',
        isEnabled = Some (''en-us'' \<in> set langs \<or> ''en-us'' = loc)\<rparr>,
      \<lparr>language = ''French'', locale' = ''fr-fr'',
        isEnabled = Some (''fr-fr'' \<in> set langs \<or> ''fr-fr'' = loc)\<rparr>,
      \<lparr>language = ''German'', locale' = ''de-de'',
        isEnabled = Some (''de-de'' \<in> set langs \<or> ''de-de'' = loc)\<rparr>]"

definition example_languages :: array_ref where
  "example_languages = \<lparr>address = 1, elements = [''en-us'']\<rparr>"

section \<open>The language server: Document Store and session state machine\<close>

text \<open>
  Of the language server (Composer/packages/tools/language-servers/language-generation)
  only \<open>package.json\<close> is among the files; its Document Store and its transport are not.
  The definitions of this section follow the specification's sentences, quoted at each.
\<close>

subsection \<open>Document Store\<close>

text \<open>
  Modelled from the spec: the Document of the data model, which the missing Document
  Store holds. "Document: uri, version (monotonic integer), full text, language
  identifier."
\<close>

record document =
  uri :: string
  version :: int
  fullText :: string
  languageId :: string

text \<open>
  Modelled from the spec: the store of the missing Document Store, which "tracks open
  document text, version numbers, and applies edit notifications": the open documents by
  uri.
\<close>

type_synonym document_store = "string \<rightharpoonup> document"

text \<open>
  Modelled from the spec: an edit notification of the missing Document Store: the
  document it is for, the version it bears, and the text the document has once the change
  is made.
\<close>

record edit_notification =
  editUri :: string
  editVersion :: int
  editText :: string

text \<open>
  Modelled from the spec: what the missing Document Store does with an edit notification:
  it is applied, or it "is rejected".
\<close>

datatype edit_outcome = Applied | Rejected

text \<open>
  Modelled from the spec: the missing Document Store's handling of one edit notification.
  "Per-document edits arrive serially and must be applied in strictly increasing version
  order; an edit bearing a version not greater than the last-applied version is rejected
  and the existing state is retained unchanged." An edit for a document that is not open
  has nothing to apply to and is rejected too.
\<close>

definition applyEdit :: "document_store \<Rightarrow> edit_notification \<Rightarrow> edit_outcome \<times> document_store" where
  "applyEdit store e =
     (case store (editUri e) of
        None \<Rightarrow> (Rejected, store)
      | Some d \<Rightarrow>
          if version d < editVersion e
          then (Applied, store(editUri e \<mapsto> d\<lparr>version := editVersion e, fullText := editText e\<rparr>))
          else (Rejected, store))"

text \<open>
  Modelled from the spec: the missing Document Store taking the edits of a session one
  after the other ("edits arrive serially").
\<close>

fun applyEdits :: "document_store \<Rightarrow> edit_notification list \<Rightarrow> document_store" where
  "applyEdits store [] = store"
| "applyEdits store (e # es) = applyEdits (snd (applyEdit store e)) es"

subsection \<open>Protocol Transport and session state machine\<close>

text \<open>
  Modelled from the spec: the session states of the missing Protocol Transport. "States:
  Uninitialized, Initializing (on receipt of the initialize request), Ready (on the
  initialized notification), ShuttingDown (on shutdown request), Exited (on exit
  notification)."
\<close>

datatype session_state = Uninitialized | Initializing | Ready | ShuttingDown | Exited

text \<open>
  Modelled from the spec: the messages the missing transport routes. "lifecycle
  (initialize, initialized, shutdown, exit), document sync (open, full/incremental change,
  close, save), and query methods (completion, hover, signature help, definition,
  references)".
\<close>

datatype document_sync =
    DidOpen document
  | DidChange edit_notification
  | DidClose string
  | DidSave string

datatype feature_kind = Completion | Hover | SignatureHelp | Definition | References

record feature_request =
  feature :: feature_kind
  requestUri :: string
  offset :: nat

datatype message =
    Initialize
  | Initialized
  | Shutdown
  | Exit
  | DocumentSync document_sync
  | FeatureRequest feature_request

text \<open>
  Modelled from the spec: the error taxonomy's member the missing transport answers with,
  "ProtocolError (malformed request or request sent in a disallowed session state)", and
  the answers of the transport.
\<close>

datatype 'ans response =
    Acknowledged
  | EditRejected
  | Answer 'ans
  | ProtocolError

text \<open>
  Modelled from the spec: the state the missing server keeps: the session state, the
  Document Store, the WorkspaceIndex ("mapping from document uri to latest analyzed
  snapshot"; "entries invalidated on document change") and the queue of analyses
  ("document updates enqueue background (re)analysis keyed by (uri, version)").
\<close>

record 'snap server =
  sessionState :: session_state
  documents :: document_store
  workspaceIndex :: "string \<rightharpoonup> 'snap"
  pending :: "(string \<times> int) list"

text \<open>
  Modelled from the spec: the missing server at its start: the session is Uninitialized,
  no document is open, and the WorkspaceIndex, "created at server start", is empty.
\<close>

definition initialServer :: "'snap server" where
  "initialServer =
     \<lparr> sessionState = Uninitialized, documents = Map.empty, workspaceIndex = Map.empty,
       pending = [] \<rparr>"

text \<open>
  Modelled from the spec: document sync in the missing server's Ready state: a Document
  is created on open, mutated by an edit notification through the Document Store and
  "destroyed on close"; a change invalidates the document's index entry and enqueues its
  analysis.
\<close>

fun syncDocument :: "'snap server \<Rightarrow> document_sync \<Rightarrow> 'ans response \<times> 'snap server" where
  "syncDocument s (DidOpen d) =
     (Acknowledged,
      s\<lparr>documents := (documents s)(uri d \<mapsto> d),
        workspaceIndex := (workspaceIndex s)(uri d := None),
        pending := pending s @ [(uri d, version d)]\<rparr>)"
| "syncDocument s (DidChange e) =
     (case applyEdit (documents s) e of
        (Applied, store) \<Rightarrow>
          (Acknowledged,
           s\<lparr>documents := store,
             workspaceIndex := (workspaceIndex s)(editUri e := None),
             pending := pending s @ [(editUri e, editVersion e)]\<rparr>)
      | (Rejected, store) \<Rightarrow> (EditRejected, s))"
| "syncDocument s (DidClose u) =
     (Acknowledged,
      s\<lparr>documents := (documents s)(u := None), workspaceIndex := (workspaceIndex s)(u := None)\<rparr>)"
| "syncDocument s (DidSave u) = (Acknowledged, s)"

text \<open>
  Modelled from the spec: the missing transport's handling of one message. The lifecycle
  messages move the session along its one path; "Only in Ready are document-sync and
  feature requests accepted; requests in any other state receive a protocol error
  response and are otherwise no-ops." The Feature Providers are "pure queries over the
  current AST + symbol table snapshot"; they are the parameter \<open>provide\<close>.
\<close>

fun handleMessage ::
  "((string \<rightharpoonup> 'snap) \<Rightarrow> feature_request \<Rightarrow> 'ans) \<Rightarrow> 'snap server \<Rightarrow> message \<Rightarrow>
   'ans response \<times> 'snap server" where
  "handleMessage provide s Initialize =
     (if sessionState s = Uninitialized
      then (Acknowledged, s\<lparr>sessionState := Initializing\<rparr>)
      else (ProtocolError, s))"
| "handleMessage provide s Initialized =
     (if sessionState s = Initializing
      then (Acknowledged, s\<lparr>sessionState := Ready\<rparr>)
      else (ProtocolError, s))"
| "handleMessage provide s Shutdown =
     (if sessionState s = Ready
      then (Acknowledged, s\<lparr>sessionState := ShuttingDown\<rparr>)
      else (ProtocolError, s))"
| "handleMessage provide s Exit =
     (if sessionState s = ShuttingDown
      then (Acknowledged, s\<lparr>sessionState := Exited\<rparr>)
      else (ProtocolError, s))"
| "handleMessage provide s (DocumentSync m) =
     (if sessionState s = Ready then syncDocument s m else (ProtocolError, s))"
| "handleMessage provide s (FeatureRequest q) =
     (if sessionState s = Ready
      then (Answer (provide (workspaceIndex s) q), s)
      else (ProtocolError, s))"

text \<open>
  Modelled from the spec: the missing transport's message loop, from a server state
  through the messages of a session, keeping the answers.
\<close>

fun runSession ::
  "((string \<rightharpoonup> 'snap) \<Rightarrow> feature_request \<Rightarrow> 'ans) \<Rightarrow> 'snap server \<Rightarrow> message list \<Rightarrow>
   'ans response list \<times> 'snap server" where
  "runSession provide s [] = ([], s)"
| "runSession provide s (m # ms) =
     (case handleMessage provide s m of
        (r, s') \<Rightarrow> (case runSession provide s' ms of (rs, s'') \<Rightarrow> (r # rs, s'')))"

text \<open>
  Modelled from the spec: the messages the missing transport accepts in Ready only, the
  "document-sync and feature requests".
\<close>

fun isSyncOrFeature :: "message \<Rightarrow> bool" where
  "isSyncOrFeature (DocumentSync m) = True"
| "isSyncOrFeature (FeatureRequest q) = True"
| "isSyncOrFeature m = False"

section \<open>Properties of the Header component\<close>


lemma onLanguageChange_None: "onLanguageChange loc pid None = []"
  by (simp add: onLanguageChange_def)

lemma onLanguageChange_Some:
  "onLanguageChange loc pid (Some y) =
     (if key y \<noteq> [] \<and> key y \<noteq> loc then [SetLocale (key y) pid] else [])"
  by (simp add: onLanguageChange_def Let_def)

text \<open>
  Claim C8. In \<open>onLanguageChange\<close>, \<open>setLocale(selectedLang, projectId)\<close> is called if and
  only if the changed option is defined and its key is non-empty and differs from the
  current locale; the call then carries that key and the current project. When the option
  is undefined, or its key is empty or equals the current locale, the handler makes no
  dispatcher call, so whatever the dispatcher does, the application state (the locale with
  it) is what it was.
\<close>

theorem onLanguageChange_setLocale_iff:
  "(SetLocale l p \<in> set (onLanguageChange loc pid opt)
      \<longleftrightarrow> (map_option key opt = Some l \<and> p = pid \<and> l \<noteq> [] \<and> l \<noteq> loc))
   \<and> (opt = Some x \<and> key x \<noteq> [] \<and> key x \<noteq> loc
          \<longrightarrow> onLanguageChange loc pid opt = [SetLocale (key x) pid])
   \<and> (opt = None \<or> opt = Some x \<and> (key x = [] \<or> key x = loc)
          \<longrightarrow> onLanguageChange loc pid opt = []
              \<and> dispatch_all run (onLanguageChange loc pid opt) st = st)"
proof (cases opt)
  case None
  then show ?thesis
    by (simp add: onLanguageChange_None dispatch_all_def)
next
  case (Some y)
  show ?thesis
    unfolding Some onLanguageChange_Some dispatch_all_def
    by (cases "key y \<noteq> [] \<and> key y \<noteq> loc") auto
qed

text \<open>The handler at a new language, at the current one and at no option.\<close>

theorem onLanguageChange_setLocale_iff_witness:
  "onLanguageChange ''en-us'' ''p1'' (Some \<lparr>key = ''fr-fr'', title = ''fr-fr'', text' = ''French''\<rparr>)
     = [SetLocale ''fr-fr'' ''p1'']
   \<and> onLanguageChange ''en-us'' ''p1'' (Some \<lparr>key = ''en-us'', title = ''en-us'', text' = ''English''\<rparr>) = []
   \<and> onLanguageChange ''en-us'' ''p1'' None = []
   \<and> dispatch_all (\<lambda>c (n::nat). Suc n) (onLanguageChange ''en-us'' ''p1'' None) 0 = 0"
  using onLanguageChange_setLocale_iff [of "''fr-fr''" "''p1''" "''en-us''" "''p1''"
      "Some \<lparr>key = ''fr-fr'', title = ''fr-fr'', text' = ''French''\<rparr>"
      "\<lparr>key = ''fr-fr'', title = ''fr-fr'', text' = ''French''\<rparr>" "\<lambda>c (n::nat). Suc n" 0]
    onLanguageChange_setLocale_iff [of "''en-us''" "''p1''" "''en-us''" "''p1''"
      "Some \<lparr>key = ''en-us'', title = ''en-us'', text' = ''English''\<rparr>"
      "\<lparr>key = ''en-us'', title = ''en-us'', text' = ''English''\<rparr>" "\<lambda>c (n::nat). Suc n" 0]
    onLanguageChange_setLocale_iff [of "''en-us''" "''p1''" "''en-us''" "''p1''"
      "None" "\<lparr>key = ''en-us'', title = ''en-us'', text' = ''English''\<rparr>" "\<lambda>c (n::nat). Suc n" 0]
  by (simp add: dispatch_all_def)









text \<open>
  Claim C10. The tree \<open>Header\<close> returns holds the update-available icon button (the
  \<open>IconButton\<close> with the icon \<open>History\<close>) if and only if \<open>appUpdate.status\<close> is
  \<open>AppUpdaterStatus.UPDATE_AVAILABLE\<close> and \<open>appUpdate.showing\<close> is false, and
  \<open>showUpdateAvailableIcon\<close> is that conjunction.
\<close>

theorem update_available_icon_rendered_iff:
  "has_icon_button ''History''
     (Header formatMessage languageFullName languageListTemplates UPDATE_AVAILABLE v)
     = (status v = UPDATE_AVAILABLE \<and> \<not> showing v)
   \<and> showUpdateAvailableIcon UPDATE_AVAILABLE (status v) (showing v)
     = (status v = UPDATE_AVAILABLE \<and> \<not> showing v)"
  by (simp add: Header_def rightSection_def headerTextContainer_def languageCallout_def
      showUpdateAvailableIcon_def Let_def split: option.splits)

text \<open>An available update, once not yet showing and once showing.\<close>

theorem update_available_icon_rendered_iff_witness:
  "has_icon_button ''History''
     (Header (\<lambda>m. m) (\<lambda>l. l) example_templates (1::nat)
        \<lparr>projectName = Some ''EchoBot'', currentLocale = ''en-us'', rootBotProjectId = ''p1'',
         status = 1, showing = False, isShow = True, botUrl = None,
         hideBotController = True, showGetStarted = False, showStartBotTeachingBubble = False,
         showGetStartedTeachingBubble = False, botProjectSolutionLoaded = True,
         requiresLUIS = False, requiresQNA = False, teachingBubbleVisibility = Some True,
         languages = example_languages, defaultLanguage = ''en-us'',
         languageListMemo = None\<rparr>)
   \<and> \<not> has_icon_button ''History''
     (Header (\<lambda>m. m) (\<lambda>l. l) example_templates (1::nat)
        \<lparr>projectName = Some ''EchoBot'', currentLocale = ''en-us'', rootBotProjectId = ''p1'',
         status = 1, showing = True, isShow = True, botUrl = None,
         hideBotController = True, showGetStarted = False, showStartBotTeachingBubble = False,
         showGetStartedTeachingBubble = False, botProjectSolutionLoaded = True,
         requiresLUIS = False, requiresQNA = False, teachingBubbleVisibility = Some True,
         languages = example_languages, defaultLanguage = ''en-us'',
         languageListMemo = None\<rparr>)"
  using update_available_icon_rendered_iff [of "\<lambda>m. m" "\<lambda>l. l" example_templates "1::nat"
        "\<lparr>projectName = Some ''EchoBot'', currentLocale = ''en-us'', rootBotProjectId = ''p1'',
         status = 1, showing = False, isShow = True, botUrl = None,
         hideBotController = True, showGetStarted = False, showStartBotTeachingBubble = False,
         showGetStartedTeachingBubble = False, botProjectSolutionLoaded = True,
         requiresLUIS = False, requiresQNA = False, teachingBubbleVisibility = Some True,
         languages = example_languages, defaultLanguage = ''en-us'',
         languageListMemo = None\<rparr>"]
    update_available_icon_rendered_iff [of "\<lambda>m. m" "\<lambda>l. l" example_templates "1::nat"
        "\<lparr>projectName = Some ''EchoBot'', currentLocale = ''en-us'', rootBotProjectId = ''p1'',
         status = 1, showing = True, isShow = True, botUrl = None,
         hideBotController = True, showGetStarted = False, showStartBotTeachingBubble = False,
         showGetStartedTeachingBubble = False, botProjectSolutionLoaded = True,
         requiresLUIS = False, requiresQNA = False, teachingBubbleVisibility = Some True,
         languages = example_languages, defaultLanguage = ''en-us'',
         languageListMemo = None\<rparr>"]
  by simp

section \<open>Properties of the Document Store\<close>

lemma applyEdit_other: "u \<noteq> editUri e \<Longrightarrow> snd (applyEdit store e) u = store u"
  by (simp add: applyEdit_def split: option.splits)

lemma applyEdit_same:
  "store (editUri e) = Some d \<Longrightarrow>
   snd (applyEdit store e) (editUri e) =
     Some (if version d < editVersion e
           then d\<lparr>version := editVersion e, fullText := editText e\<rparr> else d)"
  by (simp add: applyEdit_def)

lemma applyEdits_append: "applyEdits store (es @ fs) = applyEdits (applyEdits store es) fs"
  by (induction es arbitrary: store) simp_all

lemma Max_insert_max:
  fixes a b :: int
  assumes "finite A"
  shows "Max (insert (max a b) A) = Max (insert a (insert b A))"
proof (cases "A = {}")
  case True
  then show ?thesis by simp
next
  case False
  with assms show ?thesis by (simp add: max.assoc)
qed

lemma applyEdits_version:
  "store u = Some d \<Longrightarrow>
   \<exists>d'. applyEdits store es u = Some d' \<and>
     version d' = Max (insert (version d) (editVersion ` {e \<in> set es. editUri e = u}))"
proof (induction es arbitrary: store d)
  case Nil
  then show ?case by simp
next
  case (Cons e es)
  show ?case
  proof (cases "editUri e = u")
    case False
    then have "snd (applyEdit store e) u = Some d"
      using Cons.prems applyEdit_other by metis
    moreover have "{x \<in> set (e # es). editUri x = u} = {x \<in> set es. editUri x = u}"
      using False by auto
    ultimately show ?thesis
      using Cons.IH [of "snd (applyEdit store e)" d] by simp
  next
    case True
    let ?d = "if version d < editVersion e
           then d\<lparr>version := editVersion e, fullText := editText e\<rparr> else d"
    have st: "snd (applyEdit store e) u = Some ?d"
      using applyEdit_same [of store e d] True Cons.prems by simp
    have v: "version ?d = max (version d) (editVersion e)" by simp
    have s: "{x \<in> set (e # es). editUri x = u} = insert e {x \<in> set es. editUri x = u}"
      using True by auto
    obtain d' where d': "applyEdits (snd (applyEdit store e)) es u = Some d'"
      "version d' = Max (insert (version ?d) (editVersion ` {e \<in> set es. editUri e = u}))"
      using Cons.IH [of "snd (applyEdit store e)" ?d, OF st] by blast
    have fin: "finite (editVersion ` {e \<in> set es. editUri e = u})" by simp
    have "Max (insert (version ?d) (editVersion ` {e \<in> set es. editUri e = u}))
        = Max (insert (version d) (editVersion ` {x \<in> set (e # es). editUri x = u}))"
      unfolding s v image_insert using fin by (rule Max_insert_max)
    with d' show ?thesis by simp
  qed
qed

text \<open>
  Claim C2. Let a document be open and let any edits have been taken serially. The
  document is still open, and its version, the last-applied one, is the greatest of its
  first version and the versions of the edits for it. An edit notification for it whose
  version is not greater than that is rejected, and the store (the document's text and
  version with it) is exactly what it was; one whose version is greater is applied, and
  the document then bears the edit's version and text.
\<close>

theorem document_store_version_order:
  assumes "store u = Some d" and "editUri e = u"
  shows "\<exists>d'. applyEdits store es u = Some d'
     \<and> version d' = Max (insert (version d) (editVersion ` {x \<in> set es. editUri x = u}))
     \<and> (editVersion e \<le> version d' \<longrightarrow>
          applyEdit (applyEdits store es) e = (Rejected, applyEdits store es)
          \<and> applyEdits store (es @ [e]) = applyEdits store es)
     \<and> (version d' < editVersion e \<longrightarrow>
          applyEdit (applyEdits store es) e =
            (Applied, (applyEdits store es)(u \<mapsto> d'\<lparr>version := editVersion e, fullText := editText e\<rparr>))
          \<and> applyEdits store (es @ [e]) =
            (applyEdits store es)(u \<mapsto> d'\<lparr>version := editVersion e, fullText := editText e\<rparr>))"
proof -
  obtain d' where d': "applyEdits store es u = Some d'"
    "version d' = Max (insert (version d) (editVersion ` {x \<in> set es. editUri x = u}))"
    using applyEdits_version [of store u d es] assms(1) by blast
  have stale: "applyEdit (applyEdits store es) e = (Rejected, applyEdits store es)"
    if "editVersion e \<le> version d'"
    using that d'(1) assms(2) by (simp add: applyEdit_def)
  have fresh: "applyEdit (applyEdits store es) e =
      (Applied, (applyEdits store es)(u \<mapsto> d'\<lparr>version := editVersion e, fullText := editText e\<rparr>))"
    if "version d' < editVersion e"
    using that d'(1) assms(2) by (simp add: applyEdit_def)
  have app: "applyEdits store (es @ [e]) = snd (applyEdit (applyEdits store es) e)"
    by (simp add: applyEdits_append)
  show ?thesis
    using d' stale fresh app by auto
qed

text \<open>Version 2 arriving after version 3 is rejected; the document keeps version 3.\<close>

theorem document_store_version_order_witness:
  "applyEdits
     [''a.lg'' \<mapsto> \<lparr>uri = ''a.lg'', version = 1, fullText = ''# A'', languageId = ''lg''\<rparr>]
     [\<lparr>editUri = ''a.lg'', editVersion = 3, editText = ''# C''\<rparr>,
      \<lparr>editUri = ''a.lg'', editVersion = 2, editText = ''# B''\<rparr>] ''a.lg''
   = Some \<lparr>uri = ''a.lg'', version = 3, fullText = ''# C'', languageId = ''lg''\<rparr>
   \<and> fst (applyEdit
       (applyEdits
          [''a.lg'' \<mapsto> \<lparr>uri = ''a.lg'', version = 1, fullText = ''# A'', languageId = ''lg''\<rparr>]
          [\<lparr>editUri = ''a.lg'', editVersion = 3, editText = ''# C''\<rparr>])
       \<lparr>editUri = ''a.lg'', editVersion = 2, editText = ''# B''\<rparr>) = Rejected"
proof -
  let ?d = "\<lparr>uri = ''a.lg'', version = 1, fullText = ''# A'', languageId = ''lg''\<rparr>"
  let ?e3 = "\<lparr>editUri = ''a.lg'', editVersion = 3, editText = ''# C''\<rparr>"
  let ?e2 = "\<lparr>editUri = ''a.lg'', editVersion = 2, editText = ''# B''\<rparr>"
  have h1: "[''a.lg'' \<mapsto> ?d] ''a.lg'' = Some ?d" by simp
  have h2: "editUri ?e2 = ''a.lg''" by simp
  have s3: "applyEdits [''a.lg'' \<mapsto> ?d] [?e3] ''a.lg''
      = Some \<lparr>uri = ''a.lg'', version = 3, fullText = ''# C'', languageId = ''lg''\<rparr>"
    by (simp add: applyEdit_def)
  from document_store_version_order [of "[''a.lg'' \<mapsto> ?d]" "''a.lg''" ?d ?e2 "[?e3]"] h1 h2 s3
  show ?thesis
    by (auto simp: applyEdits_append)
qed

section \<open>Properties of the session state machine\<close>

lemma handleMessage_not_ready:
  "sessionState s \<noteq> Ready \<Longrightarrow> isSyncOrFeature m \<Longrightarrow> handleMessage provide s m = (ProtocolError, s)"
  by (cases m) simp_all

lemma runSession_append:
  "runSession provide s (ms @ ns) =
     (case runSession provide s ms of
        (rs, s') \<Rightarrow> (case runSession provide s' ns of (rs', s'') \<Rightarrow> (rs @ rs', s'')))"
  by (induction ms arbitrary: s) (auto split: prod.splits)

lemma every_state_reachable:
  "\<exists>ms. sessionState (snd (runSession provide (initialServer :: 'snap server) ms)) = st"
proof (cases st)
  case Uninitialized
  have "sessionState (snd (runSession provide (initialServer :: 'snap server) [])) = Uninitialized"
    by (simp add: initialServer_def)
  with Uninitialized show ?thesis by blast
next
  case Initializing
  have "sessionState (snd (runSession provide (initialServer :: 'snap server) [Initialize])) = Initializing"
    by (simp add: initialServer_def)
  with Initializing show ?thesis by blast
next
  case Ready
  have "sessionState (snd (runSession provide (initialServer :: 'snap server) [Initialize, Initialized])) = Ready"
    by (simp add: initialServer_def)
  with Ready show ?thesis by blast
next
  case ShuttingDown
  have "sessionState (snd (runSession provide (initialServer :: 'snap server)
          [Initialize, Initialized, Shutdown])) = ShuttingDown"
    by (simp add: initialServer_def)
  with ShuttingDown show ?thesis by blast
next
  case Exited
  have "sessionState (snd (runSession provide (initialServer :: 'snap server)
          [Initialize, Initialized, Shutdown, Exit])) = Exited"
    by (simp add: initialServer_def)
  with Exited show ?thesis by blast
qed

text \<open>
  Claim C6. In a session state other than Ready, a document-sync or feature request is
  answered with a protocol error and the server's state (session state, documents,
  workspace index, queue) is left as it was, so the session goes on from the same state;
  in Ready such a request is not a protocol error and the session stays Ready. The same
  holds at the end of every run of the message loop from the initial server, and every
  one of the five session states is reached by some run.
\<close>

theorem requests_outside_ready_are_protocol_errors:
  fixes s :: "'snap server" and provide :: "(string \<rightharpoonup> 'snap) \<Rightarrow> feature_request \<Rightarrow> 'ans"
  shows "(sessionState s \<noteq> Ready \<and> isSyncOrFeature m \<longrightarrow>
            handleMessage provide s m = (ProtocolError, s))
       \<and> (sessionState s = Ready \<and> isSyncOrFeature m \<longrightarrow>
            fst (handleMessage provide s m) \<noteq> ProtocolError
            \<and> sessionState (snd (handleMessage provide s m)) = Ready)
       \<and> (runSession provide initialServer ms = (rs, s) \<and> sessionState s \<noteq> Ready
            \<and> isSyncOrFeature m \<longrightarrow>
            runSession provide initialServer (ms @ [m]) = (rs @ [ProtocolError], s))
       \<and> (\<exists>ns. sessionState (snd (runSession provide (initialServer :: 'snap server) ns)) = st)"
proof -
  have a: "handleMessage provide s m = (ProtocolError, s)"
    if "sessionState s \<noteq> Ready" "isSyncOrFeature m"
    using that by (rule handleMessage_not_ready)
  have b: "fst (handleMessage provide s m) \<noteq> ProtocolError
            \<and> sessionState (snd (handleMessage provide s m)) = Ready"
    if r: "sessionState s = Ready" and f: "isSyncOrFeature m"
  proof (cases m)
    case (DocumentSync x)
    show ?thesis
      unfolding DocumentSync using r
      by (cases x) (auto split: prod.splits edit_outcome.splits)
  next
    case (FeatureRequest q)
    with r show ?thesis by simp
  qed (use f in simp_all)
  have c: "runSession provide initialServer (ms @ [m]) = (rs @ [ProtocolError], s)"
    if "runSession provide initialServer ms = (rs, s)" "sessionState s \<noteq> Ready" "isSyncOrFeature m"
    using that by (simp add: runSession_append handleMessage_not_ready)
  show ?thesis
    using a b c every_state_reachable [of provide st] by blast
qed

text \<open>A completion request before initialize, and a save while Initializing.\<close>

theorem requests_outside_ready_are_protocol_errors_witness:
  "handleMessage (\<lambda>index q. ()) (initialServer :: unit server)
     (FeatureRequest \<lparr>feature = Completion, requestUri = ''a.lg'', offset = 3\<rparr>)
     = (ProtocolError, initialServer)
   \<and> runSession (\<lambda>index q. ()) (initialServer :: unit server)
       [Initialize, DocumentSync (DidSave ''a.lg'')]
     = ([Acknowledged, ProtocolError], initialServer\<lparr>sessionState := Initializing\<rparr>)"
proof -
  have u: "sessionState (initialServer :: unit server) \<noteq> Ready"
    by (simp add: initialServer_def)
  have r: "runSession (\<lambda>index q. ()) (initialServer :: unit server) [Initialize]
      = ([Acknowledged], initialServer\<lparr>sessionState := Initializing\<rparr>)"
    by (simp add: initialServer_def)
  have i: "sessionState ((initialServer :: unit server)\<lparr>sessionState := Initializing\<rparr>) \<noteq> Ready"
    by simp
  show ?thesis
    using u r i
      requests_outside_ready_are_protocol_errors [of initialServer
        "FeatureRequest \<lparr>feature = Completion, requestUri = ''a.lg'', offset = 3\<rparr>"
        "\<lambda>index q. ()" "[]" "[]" Uninitialized]
      requests_outside_ready_are_protocol_errors [of "initialServer\<lparr>sessionState := Initializing\<rparr>"
        "DocumentSync (DidSave ''a.lg'')" "\<lambda>index q. ()" "[Initialize]" "[Acknowledged]" Uninitialized]
    by (simp add: initialServer_def)
qed

end
